theory Spec2Isabelle
  imports Main
begin

section \<open>JavaScript values and documents\<close>

text \<open>
  The options bag and the command document are plain JavaScript objects whose fields the
  code inspects dynamically (truthiness, \<^verbatim>\<open>typeof\<close>, comparison with
  \<^verbatim>\<open>undefined\<close>).  A value is therefore a small universal datatype; numbers are
  restricted to integers (wire versions, time limits).  A document is an association
  list in insertion order; only the first entry of a key is live.
\<close>

datatype jsval =
    JUndefined
  | JNull
  | JBool bool
  | JNum int
  | JStr string
  | JObj "(string \<times> jsval) list"

type_synonym document = "(string \<times> jsval) list"

fun js_truthy :: "jsval \<Rightarrow> bool" where
  "js_truthy JUndefined = False"
| "js_truthy JNull = False"
| "js_truthy (JBool b) = b"
| "js_truthy (JNum n) = (n \<noteq> 0)"
| "js_truthy (JStr s) = (s \<noteq> [])"
| "js_truthy (JObj d) = True"

datatype js_type = T_undefined | T_object | T_boolean | T_number | T_string

fun js_typeof :: "jsval \<Rightarrow> js_type" where
  "js_typeof JUndefined = T_undefined"
| "js_typeof JNull = T_object"
| "js_typeof (JBool b) = T_boolean"
| "js_typeof (JNum n) = T_number"
| "js_typeof (JStr s) = T_string"
| "js_typeof (JObj d) = T_object"

text \<open>\<^verbatim>\<open>a || b\<close>: the left operand when it is truthy, the right one otherwise.\<close>

definition js_or :: "jsval \<Rightarrow> jsval \<Rightarrow> jsval" where
  "js_or a b = (if js_truthy a then a else b)"

text \<open>\<^verbatim>\<open>doc.k\<close>: a missing key reads as \<^verbatim>\<open>undefined\<close>.\<close>

fun js_get :: "document \<Rightarrow> string \<Rightarrow> jsval" where
  "js_get [] k = JUndefined"
| "js_get ((k', v) # d) k = (if k' = k then v else js_get d k)"

definition js_has :: "document \<Rightarrow> string \<Rightarrow> bool" where
  "js_has d k = (k \<in> fst ` set d)"

text \<open>
  \<^verbatim>\<open>doc.k = v\<close> and \<^verbatim>\<open>Object.assign(doc, { k: v })\<close>: an existing key keeps its
  position and takes the new value, a new key is appended.
\<close>

fun js_set :: "document \<Rightarrow> string \<Rightarrow> jsval \<Rightarrow> document" where
  "js_set [] k v = [(k, v)]"
| "js_set ((k', v') # d) k v = (if k' = k then (k, v) # d else (k', v') # js_set d k v)"

text \<open>
  Object spread \<^verbatim>\<open>{ ...a, ...b }\<close>: the keys of \<open>b\<close> are assigned onto \<open>a\<close> in
  order, each with the value \<open>b\<close> reads for it.
\<close>

fun js_assign_keys :: "document \<Rightarrow> document \<Rightarrow> string list \<Rightarrow> document" where
  "js_assign_keys a b [] = a"
| "js_assign_keys a b (k # ks) = js_assign_keys (js_set a k (js_get b k)) b ks"

definition js_spread :: "document \<Rightarrow> document \<Rightarrow> document" where
  "js_spread a b = js_assign_keys a b (map fst b)"

text \<open>\<^verbatim>\<open>options?.k\<close> on an options bag that may be \<^verbatim>\<open>undefined\<close>.\<close>

definition opt_get :: "document option \<Rightarrow> string \<Rightarrow> jsval" where
  "opt_get opts k = (case opts of None \<Rightarrow> JUndefined | Some d \<Rightarrow> js_get d k)"

text \<open>Spreading a bag that may be \<^verbatim>\<open>undefined\<close> adds nothing in that case.\<close>

definition js_spread_opt :: "document \<Rightarrow> document option \<Rightarrow> document" where
  "js_spread_opt a b = (case b of None \<Rightarrow> a | Some d \<Rightarrow> js_spread a d)"

subsection \<open>Decimal rendering of an integer in a template literal\<close>

definition digit_char :: "nat \<Rightarrow> char" where
  "digit_char n = ''0123456789'' ! (n mod 10)"

fun string_of_nat :: "nat \<Rightarrow> string" where
  "string_of_nat n =
     (if n < 10 then [digit_char n] else string_of_nat (n div 10) @ [digit_char n])"

declare string_of_nat.simps [simp del]

definition string_of_int :: "int \<Rightarrow> string" where
  "string_of_int i =
     (if i < 0 then CHR ''-'' # string_of_nat (nat (- i)) else string_of_nat (nat i))"

section \<open>Collaborators of the command operation\<close>

datatype error = MongoError string

text \<open>
  Modelled from the spec: the capability aspects of an operation kind (operation.ts is
  not among the sources).  "A small fixed tag set attached to each operation kind":
  \<open>EXPLAINABLE\<close>, \<open>WRITE_OPERATION\<close> and others that play no role here.
\<close>

datatype aspect = EXPLAINABLE | WRITE_OPERATION | OTHER_ASPECT string

text \<open>
  Modelled from the spec: a namespace "identifies a (database, collection) pair"
  (utils.ts is not among the sources); \<open>withCollection\<close> keeps the database and
  puts the given collection in place.
\<close>

record namespace =
  db :: jsval
  collection :: "string option"

definition MongoDBNamespace :: "jsval \<Rightarrow> string \<Rightarrow> namespace" where
  "MongoDBNamespace d c = \<lparr>db = d, collection = Some c\<rparr>"

definition withCollection :: "namespace \<Rightarrow> string \<Rightarrow> namespace" where
  "withCollection n c = MongoDBNamespace (db n) c"

text \<open>
  Modelled from the spec: the transport reports its name and "a wire-version integer";
  \<open>maxWireVersion\<close> is the synchronous query for it.
\<close>

record server =
  server_name :: string
  wireVersion :: int

definition maxWireVersion :: "server \<Rightarrow> int" where
  "maxWireVersion srv = wireVersion srv"

text \<open>
  Modelled from the spec: the session "exposes only a boolean: is a transaction
  currently active"; the logger exposes whether debug output is enabled.
\<close>

record client_session =
  inTransaction :: bool

record logger_handle =
  isDebug :: bool

text \<open>\<^verbatim>\<open>OperationParent\<close>: the fields the constructor reads.\<close>

record operation_parent =
  parent_namespace :: namespace
  parent_logger :: "logger_handle option"

text \<open>
  The functions the operation imports from modules that are not among the sources.
  They are parameters of the model.  The three \<open>fromOptions\<close> builders take the
  options bag as the constructor received it; a read concern, a write concern and an
  explain directive are objects, held here as documents.  Building an explain directive
  may reject its input.
\<close>

record collaborators =
  ReadConcern_fromOptions :: "document option \<Rightarrow> document option"
  WriteConcern_fromOptions :: "document option \<Rightarrow> document option"
  Explain_fromOptions :: "document option \<Rightarrow> error + document option"
  commandSupportsReadConcern :: "document \<Rightarrow> bool"
  decorateWithExplain :: "document \<Rightarrow> document \<Rightarrow> document"
  namespace_toString :: "namespace \<Rightarrow> string"

section \<open>The command operation\<close>

definition SUPPORTS_WRITE_CONCERN_AND_COLLATION :: int where
  "SUPPORTS_WRITE_CONCERN_AND_COLLATION = 5"

text \<open>
  The object state of a \<^verbatim>\<open>CommandOperation\<close>: the fields the class declares
  (\<open>ns\<close> to \<open>logger\<close>) and the fields it inherits from its base class
  (\<open>aspects\<close> to \<open>server\<close>).
\<close>

record command_operation =
  ns :: namespace
  readConcern :: "document option"
  writeConcern :: "document option"
  explain :: "document option"
  fullResponse :: "bool option"
  logger :: "logger_handle option"
  aspects :: "aspect set"
  options :: document
  bsonOptions :: "document option"
  session :: "client_session option"
  server :: "server option"

definition hasAspect :: "command_operation \<Rightarrow> aspect \<Rightarrow> bool" where
  "hasAspect this a = (a \<in> aspects this)"

text \<open>
  Modelled from the spec: the base-class constructor called by \<^verbatim>\<open>super(options)\<close>
  (operation.ts is not among the sources).  The operation keeps "the caller's original
  options"; an absent bag is the empty one.
\<close>

definition OperationBase_options :: "document option \<Rightarrow> document" where
  "OperationBase_options opts = (case opts of None \<Rightarrow> [] | Some d \<Rightarrow> d)"

text \<open>
  The constructor.  Besides \<open>parent\<close> and \<open>opts\<close> it is given what the base class
  and the operation kind contribute: the static aspects of the kind, the session and the
  serialization options.  A \<^verbatim>\<open>throw\<close> is the left injection.
\<close>

definition CommandOperation_new ::
  "collaborators \<Rightarrow> aspect set \<Rightarrow> client_session option \<Rightarrow> document option \<Rightarrow>
   operation_parent option \<Rightarrow> document option \<Rightarrow> error + command_operation" where
  "CommandOperation_new deps asp sess bson parent opts =
     (let dbNameOverride = js_or (opt_get opts ''dbName'') (opt_get opts ''authdb'');
          this = \<lparr>
            ns = (if js_truthy dbNameOverride then MongoDBNamespace dbNameOverride ''$cmd''
                  else (case parent of
                          Some p \<Rightarrow> withCollection (parent_namespace p) ''$cmd''
                        | None \<Rightarrow> MongoDBNamespace (JStr ''admin'') ''$cmd'')),
            readConcern = ReadConcern_fromOptions deps opts,
            writeConcern = WriteConcern_fromOptions deps opts,
            explain = None,
            fullResponse =
              Some (case opts of
                      None \<Rightarrow> False
                    | Some d \<Rightarrow> (case js_get d ''fullResponse'' of JBool b \<Rightarrow> b | _ \<Rightarrow> False)),
            logger = (case parent of None \<Rightarrow> None | Some p \<Rightarrow> parent_logger p),
            aspects = asp,
            options = OperationBase_options opts,
            bsonOptions = bson,
            session = sess,
            server = None\<rparr>
      in if hasAspect this EXPLAINABLE then
           (case Explain_fromOptions deps opts of
              Inl e \<Rightarrow> Inl e
            | Inr ex \<Rightarrow> Inr (this\<lparr>explain := ex\<rparr>))
         else if opt_get opts ''explain'' \<noteq> JUndefined then
           Inl (MongoError ''explain is not supported on this command'')
         else Inr this)"

definition canRetryWrite :: "command_operation \<Rightarrow> bool" where
  "canRetryWrite this =
     (if hasAspect this EXPLAINABLE then explain this = None else True)"

subsection \<open>Execution\<close>

text \<open>
  What a call of \<^verbatim>\<open>executeCommand\<close> does to the outside, in order: a debug trace
  (the command and the namespace the message prints), the callback invoked with an
  error, the transport's \<^verbatim>\<open>server.command\<close> invoked with the namespace string, the
  command and the execution options (the caller's callback goes with it).
\<close>

datatype event =
    LoggerDebug document namespace
  | Callback error
  | ServerCommand string document document

text \<open>
  The state after the call: the operation (its \<open>server\<close> field is assigned), the
  caller's command document, which the call mutates in place, and the events.
\<close>

record exec_result =
  operation :: command_operation
  caller_cmd :: document
  events :: "event list"

text \<open>The local \<^verbatim>\<open>options\<close>: the operation's options overlaid by its serialization options.\<close>

definition exec_options :: "command_operation \<Rightarrow> document" where
  "exec_options this = js_spread_opt (js_spread [] (options this)) (bsonOptions this)"

text \<open>The local \<^verbatim>\<open>inTransaction\<close>: no session reads as not in a transaction.\<close>

definition session_inTransaction :: "command_operation \<Rightarrow> bool" where
  "session_inTransaction this = (case session this of None \<Rightarrow> False | Some s \<Rightarrow> inTransaction s)"

text \<open>
  The explain step works on the local variable \<^verbatim>\<open>cmd\<close>: setting the flag mutates
  the caller's document, wrapping rebinds the local only.  The pair is (caller's
  document, local \<^verbatim>\<open>cmd\<close>).
\<close>

definition executeCommand ::
  "collaborators \<Rightarrow> command_operation \<Rightarrow> server \<Rightarrow> document \<Rightarrow> exec_result" where
  "executeCommand deps this0 srv cmd0 =
     (let this = this0\<lparr>server := Some srv\<rparr>;
          opts = exec_options this;
          serverWireVersion = maxWireVersion srv;
          in_transaction = session_inTransaction this;
          cmd1 = (case readConcern this of
                    None \<Rightarrow> cmd0
                  | Some rc \<Rightarrow>
                      if commandSupportsReadConcern deps cmd0 \<and> \<not> in_transaction
                      then js_set cmd0 ''readConcern'' (JObj rc) else cmd0)
      in if js_truthy (js_get opts ''collation'')
            \<and> serverWireVersion < SUPPORTS_WRITE_CONCERN_AND_COLLATION then
           \<lparr>operation = this, caller_cmd = cmd1,
            events = [Callback (MongoError
              (''Server '' @ server_name srv @ '', which reports wire version ''
               @ string_of_int serverWireVersion @ '', does not support collation''))]\<rparr>
         else
           (let cmd3 =
                  (if serverWireVersion \<ge> SUPPORTS_WRITE_CONCERN_AND_COLLATION then
                     (let cmd2 = (case writeConcern this of
                                    None \<Rightarrow> cmd1
                                  | Some wc \<Rightarrow>
                                      if hasAspect this WRITE_OPERATION \<and> \<not> in_transaction
                                      then js_set cmd1 ''writeConcern'' (JObj wc) else cmd1)
                      in if js_truthy (js_get opts ''collation'')
                            \<and> js_typeof (js_get opts ''collation'') = T_object
                         then js_set cmd2 ''collation'' (js_get opts ''collation'') else cmd2)
                   else cmd1);
                cmd4 = (if js_typeof (js_get opts ''maxTimeMS'') = T_number
                        then js_set cmd3 ''maxTimeMS'' (js_get opts ''maxTimeMS'') else cmd3);
                cmd5 = (if js_typeof (js_get opts ''comment'') = T_string
                        then js_set cmd4 ''comment'' (js_get opts ''comment'') else cmd4);
                trace = (case logger this of
                           None \<Rightarrow> []
                         | Some l \<Rightarrow> if isDebug l then [LoggerDebug cmd5 (ns this)] else []);
                (mutated, cmd) =
                  (if hasAspect this EXPLAINABLE then
                     (case explain this of
                        None \<Rightarrow> (cmd5, cmd5)
                      | Some ex \<Rightarrow>
                          if serverWireVersion < 6 \<and> js_truthy (js_get cmd5 ''aggregate'')
                          then (js_set cmd5 ''explain'' (JBool True),
                                js_set cmd5 ''explain'' (JBool True))
                          else (cmd5, decorateWithExplain deps cmd5 ex))
                   else (cmd5, cmd5))
            in \<lparr>operation = this, caller_cmd = mutated,
                events = trace @
                  [ServerCommand (namespace_toString deps (ns this)) cmd
                     (js_spread [(''fullResult'',
                                  JBool (case fullResponse this of None \<Rightarrow> False | Some b \<Rightarrow> b))]
                                (options this))]\<rparr>))"

subsection \<open>The statements of the body, one by one\<close>

text \<open>
  Each conditional statement of \<^verbatim>\<open>executeCommand\<close> as a function of its own, and
  \<open>decorated\<close>, the command document as lines 111 to 140 leave it.  The lemma
  \<open>executeCommand_steps\<close> below shows that \<open>executeCommand\<close> is their composition.
\<close>

definition with_readConcern :: "collaborators \<Rightarrow> command_operation \<Rightarrow> document \<Rightarrow> document" where
  "with_readConcern deps this c =
     (case readConcern this of
        None \<Rightarrow> c
      | Some rc \<Rightarrow>
          if commandSupportsReadConcern deps c \<and> \<not> session_inTransaction this
          then js_set c ''readConcern'' (JObj rc) else c)"

definition with_writeConcern :: "command_operation \<Rightarrow> document \<Rightarrow> document" where
  "with_writeConcern this c =
     (case writeConcern this of
        None \<Rightarrow> c
      | Some wc \<Rightarrow>
          if hasAspect this WRITE_OPERATION \<and> \<not> session_inTransaction this
          then js_set c ''writeConcern'' (JObj wc) else c)"

definition with_collation :: "command_operation \<Rightarrow> document \<Rightarrow> document" where
  "with_collation this c =
     (if js_truthy (js_get (exec_options this) ''collation'')
         \<and> js_typeof (js_get (exec_options this) ''collation'') = T_object
      then js_set c ''collation'' (js_get (exec_options this) ''collation'') else c)"

definition with_maxTimeMS :: "command_operation \<Rightarrow> document \<Rightarrow> document" where
  "with_maxTimeMS this c =
     (if js_typeof (js_get (exec_options this) ''maxTimeMS'') = T_number
      then js_set c ''maxTimeMS'' (js_get (exec_options this) ''maxTimeMS'') else c)"

definition with_comment :: "command_operation \<Rightarrow> document \<Rightarrow> document" where
  "with_comment this c =
     (if js_typeof (js_get (exec_options this) ''comment'') = T_string
      then js_set c ''comment'' (js_get (exec_options this) ''comment'') else c)"

definition decorated :: "collaborators \<Rightarrow> command_operation \<Rightarrow> server \<Rightarrow> document \<Rightarrow> document" where
  "decorated deps this srv c =
     with_comment this (with_maxTimeMS this
       (if maxWireVersion srv \<ge> SUPPORTS_WRITE_CONCERN_AND_COLLATION
        then with_collation this (with_writeConcern this (with_readConcern deps this c))
        else with_readConcern deps this c))"

definition explain_step ::
  "collaborators \<Rightarrow> command_operation \<Rightarrow> server \<Rightarrow> document \<Rightarrow> document \<times> document" where
  "explain_step deps this srv c =
     (if hasAspect this EXPLAINABLE then
        (case explain this of
           None \<Rightarrow> (c, c)
         | Some ex \<Rightarrow>
             if maxWireVersion srv < 6 \<and> js_truthy (js_get c ''aggregate'')
             then (js_set c ''explain'' (JBool True), js_set c ''explain'' (JBool True))
             else (c, decorateWithExplain deps c ex))
      else (c, c))"

definition debug_trace :: "command_operation \<Rightarrow> document \<Rightarrow> event list" where
  "debug_trace this c =
     (case logger this of
        None \<Rightarrow> []
      | Some l \<Rightarrow> if isDebug l then [LoggerDebug c (ns this)] else [])"

definition forwarded_options :: "command_operation \<Rightarrow> document" where
  "forwarded_options this =
     js_spread [(''fullResult'', JBool (case fullResponse this of None \<Rightarrow> False | Some b \<Rightarrow> b))]
       (options this)"

definition collation_error :: "server \<Rightarrow> error" where
  "collation_error srv =
     MongoError (''Server '' @ server_name srv @ '', which reports wire version ''
                 @ string_of_int (maxWireVersion srv) @ '', does not support collation'')"

definition collation_rejected :: "command_operation \<Rightarrow> server \<Rightarrow> bool" where
  "collation_rejected this srv =
     (js_truthy (js_get (exec_options this) ''collation'')
      \<and> maxWireVersion srv < SUPPORTS_WRITE_CONCERN_AND_COLLATION)"

text \<open>The transport calls among the events: namespace string, command, execution options.\<close>

fun transport_calls :: "event list \<Rightarrow> (string \<times> document \<times> document) list" where
  "transport_calls [] = []"
| "transport_calls (ServerCommand n c x # es) = (n, c, x) # transport_calls es"
| "transport_calls (LoggerDebug c n # es) = transport_calls es"
| "transport_calls (Callback e # es) = transport_calls es"

text \<open>The errors the callback was invoked with.\<close>

fun callback_errors :: "event list \<Rightarrow> error list" where
  "callback_errors [] = []"
| "callback_errors (Callback e # es) = e # callback_errors es"
| "callback_errors (LoggerDebug c n # es) = callback_errors es"
| "callback_errors (ServerCommand n c x # es) = callback_errors es"

text \<open>The commands and the execution options handed to the transport.\<close>

definition sent_commands :: "event list \<Rightarrow> document list" where
  "sent_commands es = map (\<lambda>(n, c, x). c) (transport_calls es)"

definition sent_options :: "event list \<Rightarrow> document list" where
  "sent_options es = map (\<lambda>(n, c, x). x) (transport_calls es)"

text \<open>
  Modelled from the spec: \<^verbatim>\<open>Explain.fromOptions\<close> (explain.ts is not among the
  sources).  The explain directive is "optional" and resolved "from options (may still
  be no explain)"; with no explain option in the bag there is no directive.
\<close>

definition Explain_unset_gives_none :: "collaborators \<Rightarrow> bool" where
  "Explain_unset_gives_none deps =
     (\<forall>opts. opt_get opts ''explain'' = JUndefined \<longrightarrow> Explain_fromOptions deps opts = Inr None)"

text \<open>A document holds a value under a key: the key is present and reads as that value.\<close>

definition js_holds :: "document \<Rightarrow> string \<Rightarrow> jsval \<Rightarrow> bool" where
  "js_holds d k v = (js_has d k \<and> js_get d k = v)"

text \<open>The fields the body of \<^verbatim>\<open>executeCommand\<close> can set on the command document.\<close>

definition decoration_keys :: "string set" where
  "decoration_keys =
     {''readConcern'', ''writeConcern'', ''collation'', ''maxTimeMS'', ''comment'', ''explain''}"

text \<open>
  Modelled from the spec: \<^verbatim>\<open>commandSupportsReadConcern\<close> (sessions.ts is not among the
  sources) tells whether "the command's verb supports read concern".  The verb is none
  of the fields the pipeline sets, so setting one of them leaves the answer as it was.
\<close>

definition readConcern_support_by_verb :: "collaborators \<Rightarrow> bool" where
  "readConcern_support_by_verb deps =
     (\<forall>d k v. k \<in> decoration_keys \<longrightarrow>
        commandSupportsReadConcern deps (js_set d k v) = commandSupportsReadConcern deps d)"

section \<open>A sample instance\<close>

text \<open>
  An instance of the collaborators and a few operations, servers and commands, on which
  the model is evaluated.
\<close>

definition sample_deps :: collaborators where
  "sample_deps = \<lparr>
     ReadConcern_fromOptions =
       (\<lambda>opts. case opt_get opts ''readConcern'' of JObj d \<Rightarrow> Some d | _ \<Rightarrow> None),
     WriteConcern_fromOptions =
       (\<lambda>opts. case opt_get opts ''writeConcern'' of JObj d \<Rightarrow> Some d | _ \<Rightarrow> None),
     Explain_fromOptions =
       (\<lambda>opts. case opt_get opts ''explain'' of
                 JUndefined \<Rightarrow> Inr None
               | JBool b \<Rightarrow> Inr (Some [(''verbosity'',
                                JStr (if b then ''allPlansExecution'' else ''queryPlanner''))])
               | JStr s \<Rightarrow> Inr (Some [(''verbosity'', JStr s)])
               | _ \<Rightarrow> Inl (MongoError ''explain must be a string or a boolean'')),
     commandSupportsReadConcern =
       (\<lambda>c. js_truthy (js_get c ''aggregate'') \<or> js_truthy (js_get c ''find'')),
     decorateWithExplain =
       (\<lambda>c ex. if js_truthy (js_get c ''explain'') then c
                else [(''explain'', JObj c), (''verbosity'', js_get ex ''verbosity'')]),
     namespace_toString =
       (\<lambda>n. (case db n of JStr s \<Rightarrow> s | _ \<Rightarrow> [])
             @ (case collection n of None \<Rightarrow> [] | Some c \<Rightarrow> CHR ''.'' # c))\<rparr>"

definition sample_server :: "int \<Rightarrow> server" where
  "sample_server v = \<lparr>server_name = ''db1:27017'', wireVersion = v\<rparr>"

definition sample_parent :: operation_parent where
  "sample_parent = \<lparr>parent_namespace = \<lparr>db = JStr ''shop'', collection = Some ''orders''\<rparr>,
                     parent_logger = Some \<lparr>isDebug = True\<rparr>\<rparr>"

definition sample_options :: document where
  "sample_options =
     [(''readConcern'', JObj [(''level'', JStr ''majority'')]),
      (''writeConcern'', JObj [(''w'', JNum 1)]),
      (''collation'', JObj [(''locale'', JStr ''en'')]),
      (''maxTimeMS'', JNum 250),
      (''comment'', JStr ''nightly''),
      (''fullResult'', JBool False),
      (''fullResponse'', JBool True)]"

text \<open>An explainable write operation with an explain directive and both concerns.\<close>

definition sample_op :: command_operation where
  "sample_op = \<lparr>
     ns = MongoDBNamespace (JStr ''shop'') ''$cmd'',
     readConcern = Some [(''level'', JStr ''majority'')],
     writeConcern = Some [(''w'', JNum 1)],
     explain = Some [(''verbosity'', JStr ''queryPlanner'')],
     fullResponse = Some True,
     logger = Some \<lparr>isDebug = True\<rparr>,
     aspects = {EXPLAINABLE, WRITE_OPERATION},
     options = sample_options,
     bsonOptions = Some [(''raw'', JBool False)],
     session = Some \<lparr>inTransaction = False\<rparr>,
     server = None\<rparr>"

definition sample_cmd :: document where
  "sample_cmd = [(''aggregate'', JStr ''orders''), (''pipeline'', JObj [])]"

section \<open>Documents\<close>

lemma js_get_set [simp]: "js_get (js_set d k v) k' = (if k' = k then v else js_get d k')"
  by (induction d) auto

lemma js_get_undefined: "\<not> js_has d k \<Longrightarrow> js_get d k = JUndefined"
  by (induction d) (auto simp: js_has_def)

lemma js_get_assign_keys:
  "js_get (js_assign_keys a b ks) k = (if k \<in> set ks then js_get b k else js_get a k)"
  by (induction ks arbitrary: a) auto

lemma js_get_spread:
  "js_get (js_spread a b) k = (if js_has b k then js_get b k else js_get a k)"
  by (simp add: js_spread_def js_get_assign_keys js_has_def)

lemma js_get_spread_empty [simp]: "js_get (js_spread [] d) k = js_get d k"
  by (simp add: js_get_spread js_get_undefined)

section \<open>The body of executeCommand as a composition of its statements\<close>

lemma exec_options_server [simp]: "exec_options (this\<lparr>server := s\<rparr>) = exec_options this"
  by (simp add: exec_options_def)

lemma session_inTransaction_server [simp]:
  "session_inTransaction (this\<lparr>server := s\<rparr>) = session_inTransaction this"
  by (simp add: session_inTransaction_def)

lemma hasAspect_server [simp]: "hasAspect (this\<lparr>server := s\<rparr>) a = hasAspect this a"
  by (simp add: hasAspect_def)

lemma executeCommand_steps:
  "executeCommand deps this srv c =
     (if collation_rejected this srv then
        \<lparr>operation = this\<lparr>server := Some srv\<rparr>,
         caller_cmd = with_readConcern deps this c,
         events = [Callback (collation_error srv)]\<rparr>
      else
        \<lparr>operation = this\<lparr>server := Some srv\<rparr>,
         caller_cmd = fst (explain_step deps this srv (decorated deps this srv c)),
         events = debug_trace this (decorated deps this srv c) @
           [ServerCommand (namespace_toString deps (ns this))
              (snd (explain_step deps this srv (decorated deps this srv c)))
              (forwarded_options this)]\<rparr>)"
  unfolding executeCommand_def collation_rejected_def with_readConcern_def
    with_writeConcern_def with_collation_def with_maxTimeMS_def with_comment_def
    decorated_def explain_step_def debug_trace_def forwarded_options_def
    collation_error_def Let_def
  by (simp add: split_beta if_distrib [of fst] if_distrib [of snd] option.case_distrib [of fst]
      option.case_distrib [of snd]
      cong: if_cong option.case_cong split del: if_split)

lemma transport_calls_debug_trace [simp]:
  "transport_calls (debug_trace this d @ es) = transport_calls es"
  by (simp add: debug_trace_def split: option.split)

lemma callback_errors_debug_trace [simp]:
  "callback_errors (debug_trace this d @ es) = callback_errors es"
  by (simp add: debug_trace_def split: option.split)

lemma transport_calls_executeCommand:
  "transport_calls (events (executeCommand deps this srv c)) =
     (if collation_rejected this srv then []
      else [(namespace_toString deps (ns this),
             snd (explain_step deps this srv (decorated deps this srv c)),
             forwarded_options this)])"
  by (simp add: executeCommand_steps)

lemma callback_errors_executeCommand:
  "callback_errors (events (executeCommand deps this srv c)) =
     (if collation_rejected this srv then [collation_error srv] else [])"
  by (simp add: executeCommand_steps)

lemma caller_cmd_executeCommand:
  "caller_cmd (executeCommand deps this srv c) =
     (if collation_rejected this srv then with_readConcern deps this c
      else fst (explain_step deps this srv (decorated deps this srv c)))"
  by (simp add: executeCommand_steps)

text \<open>Which keys each statement can touch.\<close>

lemma js_get_with_readConcern:
  "js_get (with_readConcern deps this c) k =
     (case readConcern this of
        None \<Rightarrow> js_get c k
      | Some rc \<Rightarrow>
          if k = ''readConcern'' \<and> commandSupportsReadConcern deps c
             \<and> \<not> session_inTransaction this
          then JObj rc else js_get c k)"
  by (auto simp: with_readConcern_def split: option.split)

lemma js_get_with_writeConcern:
  "js_get (with_writeConcern this c) k =
     (case writeConcern this of
        None \<Rightarrow> js_get c k
      | Some wc \<Rightarrow>
          if k = ''writeConcern'' \<and> hasAspect this WRITE_OPERATION
             \<and> \<not> session_inTransaction this
          then JObj wc else js_get c k)"
  by (auto simp: with_writeConcern_def split: option.split)

lemma js_get_with_collation:
  "k \<noteq> ''collation'' \<Longrightarrow> js_get (with_collation this c) k = js_get c k"
  by (simp add: with_collation_def)

lemma js_get_with_maxTimeMS:
  "k \<noteq> ''maxTimeMS'' \<Longrightarrow> js_get (with_maxTimeMS this c) k = js_get c k"
  by (simp add: with_maxTimeMS_def)

lemma js_get_with_comment:
  "k \<noteq> ''comment'' \<Longrightarrow> js_get (with_comment this c) k = js_get c k"
  by (simp add: with_comment_def)

lemma js_get_decorated_other:
  assumes "k \<noteq> ''readConcern''" and "k \<noteq> ''writeConcern''" and "k \<noteq> ''collation''"
    and "k \<noteq> ''maxTimeMS''" and "k \<noteq> ''comment''"
  shows "js_get (decorated deps this srv c) k = js_get c k"
  using assms
  by (simp add: decorated_def js_get_with_comment js_get_with_maxTimeMS js_get_with_collation
      js_get_with_writeConcern js_get_with_readConcern split: option.split)

lemma js_get_fst_explain_step:
  "k \<noteq> ''explain'' \<Longrightarrow> js_get (fst (explain_step deps this srv d)) k = js_get d k"
  by (simp add: explain_step_def split: option.split)

text \<open>Evaluation of the model on the sample instance.\<close>

lemmas sample_defs =
  sample_deps_def sample_server_def sample_parent_def sample_options_def sample_op_def
  sample_cmd_def

lemmas model_defs =
  exec_options_def session_inTransaction_def hasAspect_def maxWireVersion_def
  js_spread_opt_def js_spread_def SUPPORTS_WRITE_CONCERN_AND_COLLATION_def
  MongoDBNamespace_def withCollection_def opt_get_def js_or_def OperationBase_options_def
  sent_commands_def sent_options_def js_has_def
  collation_rejected_def collation_error_def with_readConcern_def with_writeConcern_def
  with_collation_def with_maxTimeMS_def with_comment_def decorated_def explain_step_def
  debug_trace_def forwarded_options_def

lemma string_of_int_digit: "0 \<le> i \<Longrightarrow> i < 10 \<Longrightarrow> string_of_int i = [digit_char (nat i)]"
  by (simp add: string_of_int_def string_of_nat.simps)

section \<open>The collation gate\<close>

text \<open>
  The serialization options hold serialization settings only; when they have no entry for
  a key, the local \<^verbatim>\<open>options\<close> reads that key from the operation's own options.
\<close>

lemma exec_options_own:
  assumes "case bsonOptions this of None \<Rightarrow> True | Some b \<Rightarrow> \<not> js_has b k"
  shows "js_get (exec_options this) k = js_get (options this) k"
  using assms
  by (auto simp: exec_options_def js_spread_opt_def js_get_spread js_get_undefined
      split: option.splits)

text \<open>
  C1.  When the options the call works with (the local \<^verbatim>\<open>options\<close>: the operation's
  options overlaid by its serialization options) hold a truthy collation and the server
  reports a wire version below 5, the call does exactly one thing to the outside: it
  invokes the callback with the error that names the server and the version.  The
  transport's send is not invoked.
\<close>

theorem collation_gate:
  assumes "js_truthy (js_get (exec_options this) ''collation'')"
    and "maxWireVersion srv < 5"
  shows "events (executeCommand deps this srv c) =
           [Callback (MongoError
              (''Server '' @ server_name srv @ '', which reports wire version ''
               @ string_of_int (maxWireVersion srv) @ '', does not support collation''))]
         \<and> transport_calls (events (executeCommand deps this srv c)) = []"
  using assms
  by (simp add: executeCommand_steps collation_rejected_def collation_error_def
      SUPPORTS_WRITE_CONCERN_AND_COLLATION_def)

theorem collation_gate_witness:
  "js_truthy (js_get (exec_options sample_op) ''collation'')
   \<and> maxWireVersion (sample_server 4) < 5
   \<and> events (executeCommand sample_deps sample_op (sample_server 4) sample_cmd) =
       [Callback (MongoError
          ''Server db1:27017, which reports wire version 4, does not support collation'')]
   \<and> transport_calls
        (events (executeCommand sample_deps sample_op (sample_server 4) sample_cmd)) = []"
proof -
  have h1: "js_truthy (js_get (exec_options sample_op) ''collation'')"
    by (simp add: sample_defs model_defs)
  have h2: "maxWireVersion (sample_server 4) < 5"
    by (simp add: sample_defs model_defs)
  have s: "string_of_int 4 = ''4''"
    by (simp add: string_of_int_digit digit_char_def)
  show ?thesis
    using h1 h2 collation_gate [OF h1 h2, of sample_deps sample_cmd] s
    by (simp add: sample_server_def maxWireVersion_def)
qed

section \<open>Explain\<close>

text \<open>
  C2, as the sentence stands, covers every call on an explainable operation with an
  active directive.  A call that the collation gate rejects returns before the explain
  statement: on the sample aggregate with a collation, against wire version 4, neither
  the flag is set nor anything is sent.
\<close>

theorem explain_flag_counterexample:
  "hasAspect sample_op EXPLAINABLE
   \<and> explain sample_op \<noteq> None
   \<and> maxWireVersion (sample_server 4) < 6
   \<and> js_truthy (js_get sample_cmd ''aggregate'')
   \<and> js_get (caller_cmd (executeCommand sample_deps sample_op (sample_server 4) sample_cmd))
        ''explain'' \<noteq> JBool True
   \<and> sent_commands
        (events (executeCommand sample_deps sample_op (sample_server 4) sample_cmd)) = []"
  by (simp add: executeCommand_steps sample_defs model_defs)

text \<open>
  C2, amended.  For an explainable operation with an active explain directive, on a call
  that the collation gate does not reject: if the wire version is below 6 and the
  command has a truthy \<open>aggregate\<close> field, the decorated command gets
  \<open>explain: true\<close> in place and is sent as it is; otherwise the caller's document
  gets no explain field and what is sent is \<open>decorateWithExplain\<close> of the decorated
  command and the directive.
\<close>

theorem explain_decoration:
  assumes "hasAspect this EXPLAINABLE"
    and "explain this = Some ex"
    and "\<not> (js_truthy (js_get (exec_options this) ''collation'') \<and> maxWireVersion srv < 5)"
  shows "if maxWireVersion srv < 6 \<and> js_truthy (js_get c ''aggregate'')
         then caller_cmd (executeCommand deps this srv c) =
                js_set (decorated deps this srv c) ''explain'' (JBool True)
              \<and> sent_commands (events (executeCommand deps this srv c)) =
                  [js_set (decorated deps this srv c) ''explain'' (JBool True)]
         else caller_cmd (executeCommand deps this srv c) = decorated deps this srv c
              \<and> sent_commands (events (executeCommand deps this srv c)) =
                  [decorateWithExplain deps (decorated deps this srv c) ex]"
proof -
  have agg: "js_get (decorated deps this srv c) ''aggregate'' = js_get c ''aggregate''"
    by (rule js_get_decorated_other) simp_all
  have nr: "\<not> collation_rejected this srv"
    using assms(3) by (simp add: collation_rejected_def SUPPORTS_WRITE_CONCERN_AND_COLLATION_def)
  show ?thesis
    using assms(1,2) nr
    by (simp add: executeCommand_steps sent_commands_def explain_step_def agg)
qed

theorem explain_decoration_witness:
  "hasAspect sample_op EXPLAINABLE
   \<and> explain sample_op = Some [(''verbosity'', JStr ''queryPlanner'')]
   \<and> \<not> (js_truthy (js_get (exec_options sample_op) ''collation'')
          \<and> maxWireVersion (sample_server 5) < 5)
   \<and> \<not> (js_truthy (js_get (exec_options sample_op) ''collation'')
          \<and> maxWireVersion (sample_server 6) < 5)
   \<and> js_get (caller_cmd (executeCommand sample_deps sample_op (sample_server 5) sample_cmd))
        ''explain'' = JBool True
   \<and> sent_commands (events (executeCommand sample_deps sample_op (sample_server 5) sample_cmd))
       = [caller_cmd (executeCommand sample_deps sample_op (sample_server 5) sample_cmd)]
   \<and> js_get (caller_cmd (executeCommand sample_deps sample_op (sample_server 6) sample_cmd))
        ''explain'' = JUndefined
   \<and> sent_commands (events (executeCommand sample_deps sample_op (sample_server 6) sample_cmd))
       = [[(''explain'',
            JObj (caller_cmd (executeCommand sample_deps sample_op (sample_server 6) sample_cmd))),
           (''verbosity'', JStr ''queryPlanner'')]]"
proof -
  let ?ex = "[(''verbosity'', JStr ''queryPlanner'')]"
  have a: "hasAspect sample_op EXPLAINABLE"
    by (simp add: sample_defs model_defs)
  have e: "explain sample_op = Some ?ex"
    by (simp add: sample_defs)
  have n5: "\<not> (js_truthy (js_get (exec_options sample_op) ''collation'')
               \<and> maxWireVersion (sample_server 5) < 5)"
    by (simp add: sample_defs model_defs)
  have n6: "\<not> (js_truthy (js_get (exec_options sample_op) ''collation'')
               \<and> maxWireVersion (sample_server 6) < 5)"
    by (simp add: sample_defs model_defs)
  have g: "js_truthy (js_get sample_cmd ''aggregate'')"
    by (simp add: sample_defs)
  have v5: "maxWireVersion (sample_server 5) < 6" and v6: "\<not> maxWireVersion (sample_server 6) < 6"
    by (simp_all add: sample_defs model_defs)
  have d6: "js_get (decorated sample_deps sample_op (sample_server 6) sample_cmd) ''explain''
            = JUndefined"
    by (simp add: js_get_decorated_other sample_cmd_def)
  have dx: "decorateWithExplain sample_deps d ?ex
            = (if js_truthy (js_get d ''explain'') then d
               else [(''explain'', JObj d), (''verbosity'', JStr ''queryPlanner'')])" for d
    by (simp add: sample_deps_def)
  show ?thesis
    using a e n5 n6
      explain_decoration [OF a e n5, of sample_cmd sample_deps]
      explain_decoration [OF a e n6, of sample_cmd sample_deps]
    by (simp add: g v5 v6 d6 dx)
qed

text \<open>
  C3.  On an operation kind without the \<open>EXPLAINABLE\<close> aspect, an explain option
  other than \<^verbatim>\<open>undefined\<close> makes the constructor throw; the constructor performs
  no call on a transport, so nothing has been sent.  On an explainable kind, with no
  explain option and a builder that then yields no directive, the constructor returns an
  operation without a directive, and every call of that operation leaves the explain
  field of the caller's document as it was and sends, if anything, the caller's
  document itself.
\<close>

theorem explain_gate:
  "(EXPLAINABLE \<notin> asp \<and> opt_get opts ''explain'' \<noteq> JUndefined \<longrightarrow>
      CommandOperation_new deps asp sess bson parent opts
        = Inl (MongoError ''explain is not supported on this command''))
   \<and> (EXPLAINABLE \<in> asp \<and> opt_get opts ''explain'' = JUndefined
        \<and> Explain_unset_gives_none deps \<longrightarrow>
      (\<exists>this. CommandOperation_new deps asp sess bson parent opts = Inr this
         \<and> explain this = None
         \<and> (\<forall>srv c.
              js_get (caller_cmd (executeCommand deps this srv c)) ''explain''
                = js_get c ''explain''
              \<and> set (sent_commands (events (executeCommand deps this srv c)))
                  \<subseteq> {caller_cmd (executeCommand deps this srv c)})))"
proof (intro conjI impI)
  assume "EXPLAINABLE \<notin> asp \<and> opt_get opts ''explain'' \<noteq> JUndefined"
  then show "CommandOperation_new deps asp sess bson parent opts
             = Inl (MongoError ''explain is not supported on this command'')"
    by (simp add: CommandOperation_new_def Let_def hasAspect_def)
next
  assume h: "EXPLAINABLE \<in> asp \<and> opt_get opts ''explain'' = JUndefined
             \<and> Explain_unset_gives_none deps"
  then have none: "Explain_fromOptions deps opts = Inr None"
    by (simp add: Explain_unset_gives_none_def)
  obtain this where new: "CommandOperation_new deps asp sess bson parent opts = Inr this"
    and ex: "explain this = None"
    using h none by (simp add: CommandOperation_new_def Let_def hasAspect_def)
  have "js_get (caller_cmd (executeCommand deps this srv c)) ''explain'' = js_get c ''explain''
        \<and> set (sent_commands (events (executeCommand deps this srv c)))
            \<subseteq> {caller_cmd (executeCommand deps this srv c)}" for srv c
    using ex
    by (simp add: executeCommand_steps sent_commands_def explain_step_def
        js_get_decorated_other js_get_with_readConcern split: option.split)
  with new ex
  show "\<exists>this. CommandOperation_new deps asp sess bson parent opts = Inr this
          \<and> explain this = None
          \<and> (\<forall>srv c.
               js_get (caller_cmd (executeCommand deps this srv c)) ''explain''
                 = js_get c ''explain''
               \<and> set (sent_commands (events (executeCommand deps this srv c)))
                   \<subseteq> {caller_cmd (executeCommand deps this srv c)})"
    by blast
qed

theorem explain_gate_witness:
  "EXPLAINABLE \<notin> {WRITE_OPERATION}
   \<and> opt_get (Some [(''explain'', JBool True)]) ''explain'' \<noteq> JUndefined
   \<and> CommandOperation_new sample_deps {WRITE_OPERATION} None None (Some sample_parent)
        (Some [(''explain'', JBool True)])
       = Inl (MongoError ''explain is not supported on this command'')
   \<and> EXPLAINABLE \<in> {EXPLAINABLE, WRITE_OPERATION}
   \<and> opt_get (Some sample_options) ''explain'' = JUndefined
   \<and> Explain_unset_gives_none sample_deps
   \<and> (\<exists>this. CommandOperation_new sample_deps {EXPLAINABLE, WRITE_OPERATION} None None
                 (Some sample_parent) (Some sample_options) = Inr this
         \<and> explain this = None
         \<and> (\<forall>srv c.
              js_get (caller_cmd (executeCommand sample_deps this srv c)) ''explain''
                = js_get c ''explain''
              \<and> set (sent_commands (events (executeCommand sample_deps this srv c)))
                  \<subseteq> {caller_cmd (executeCommand sample_deps this srv c)}))"
proof -
  have a1: "EXPLAINABLE \<notin> {WRITE_OPERATION}
            \<and> opt_get (Some [(''explain'', JBool True)]) ''explain'' \<noteq> JUndefined"
    by (simp add: opt_get_def)
  have a2: "EXPLAINABLE \<in> {EXPLAINABLE, WRITE_OPERATION}
            \<and> opt_get (Some sample_options) ''explain'' = JUndefined
            \<and> Explain_unset_gives_none sample_deps"
    by (simp add: opt_get_def sample_options_def Explain_unset_gives_none_def sample_deps_def)
  show ?thesis
    using a1 a2
      explain_gate [of "{WRITE_OPERATION}" "Some [(''explain'', JBool True)]" sample_deps
        None None "Some sample_parent"]
      explain_gate [of "{EXPLAINABLE, WRITE_OPERATION}" "Some sample_options" sample_deps
        None None "Some sample_parent"]
    by blast
qed

section \<open>Retry eligibility\<close>

text \<open>
  C4.  \<open>canRetryWrite\<close> of an operation with the \<open>EXPLAINABLE\<close> aspect is true when
  its explain directive is \<^verbatim>\<open>undefined\<close> and false when there is one; of an
  operation without the aspect it is true.
\<close>

theorem retry_eligibility:
  "(hasAspect this EXPLAINABLE \<and> explain this = None \<longrightarrow> canRetryWrite this)
   \<and> (hasAspect this EXPLAINABLE \<and> explain this \<noteq> None \<longrightarrow> \<not> canRetryWrite this)
   \<and> (\<not> hasAspect this EXPLAINABLE \<longrightarrow> canRetryWrite this)"
  by (simp add: canRetryWrite_def)

theorem retry_eligibility_witness:
  "hasAspect (sample_op\<lparr>explain := None\<rparr>) EXPLAINABLE
   \<and> explain (sample_op\<lparr>explain := None\<rparr>) = None
   \<and> canRetryWrite (sample_op\<lparr>explain := None\<rparr>)
   \<and> hasAspect sample_op EXPLAINABLE
   \<and> explain sample_op \<noteq> None
   \<and> \<not> canRetryWrite sample_op
   \<and> \<not> hasAspect (sample_op\<lparr>aspects := {WRITE_OPERATION}\<rparr>) EXPLAINABLE
   \<and> canRetryWrite (sample_op\<lparr>aspects := {WRITE_OPERATION}\<rparr>)"
proof -
  have h1: "hasAspect (sample_op\<lparr>explain := None\<rparr>) EXPLAINABLE
            \<and> explain (sample_op\<lparr>explain := None\<rparr>) = None"
    by (simp add: sample_op_def hasAspect_def)
  have h2: "hasAspect sample_op EXPLAINABLE \<and> explain sample_op \<noteq> None"
    by (simp add: sample_op_def hasAspect_def)
  have h3: "\<not> hasAspect (sample_op\<lparr>aspects := {WRITE_OPERATION}\<rparr>) EXPLAINABLE"
    by (simp add: hasAspect_def)
  show ?thesis
    using h1 h2 h3
      retry_eligibility [of "sample_op\<lparr>explain := None\<rparr>"]
      retry_eligibility [of sample_op]
      retry_eligibility [of "sample_op\<lparr>aspects := {WRITE_OPERATION}\<rparr>"]
    by blast
qed

section \<open>Namespace resolution\<close>

text \<open>
  C5.  An operation the constructor returns has as its database the override
  (\<open>dbName\<close>, else \<open>authdb\<close>) when that is truthy, whatever the parent; else
  the parent's database when there is a parent; else \<open>admin\<close>.  Its collection is
  \<open>$cmd\<close>.  A call of \<open>executeCommand\<close> leaves the namespace as the constructor
  set it.
\<close>

theorem namespace_precedence:
  assumes "CommandOperation_new deps asp sess bson parent opts = Inr this"
  shows "db (ns this) =
           (if js_truthy (js_or (opt_get opts ''dbName'') (opt_get opts ''authdb''))
            then js_or (opt_get opts ''dbName'') (opt_get opts ''authdb'')
            else (case parent of
                    Some p \<Rightarrow> db (parent_namespace p)
                  | None \<Rightarrow> JStr ''admin''))
         \<and> collection (ns this) = Some ''$cmd''
         \<and> ns (operation (executeCommand deps' this srv c)) = ns this"
proof -
  let ?ov = "js_or (opt_get opts ''dbName'') (opt_get opts ''authdb'')"
  let ?n = "if js_truthy ?ov then MongoDBNamespace ?ov ''$cmd''
            else (case parent of
                    Some p \<Rightarrow> withCollection (parent_namespace p) ''$cmd''
                  | None \<Rightarrow> MongoDBNamespace (JStr ''admin'') ''$cmd'')"
  have "ns this = ?n"
    using assms
    by (auto simp: CommandOperation_new_def Let_def split: if_splits sum.splits)
  moreover have "ns (operation (executeCommand deps' this srv c)) = ns this"
    by (simp add: executeCommand_steps)
  ultimately show ?thesis
    by (simp add: MongoDBNamespace_def withCollection_def split: option.split)
qed

theorem namespace_precedence_witness:
  "(\<exists>this. CommandOperation_new sample_deps {} None None (Some sample_parent)
              (Some [(''dbName'', JStr ''reports'')]) = Inr this
           \<and> ns this = \<lparr>db = JStr ''reports'', collection = Some ''$cmd''\<rparr>
           \<and> ns (operation (executeCommand sample_deps this (sample_server 6) sample_cmd))
               = ns this)
   \<and> (\<exists>this. CommandOperation_new sample_deps {} None None (Some sample_parent)
              (Some [(''authdb'', JStr ''users'')]) = Inr this
           \<and> ns this = \<lparr>db = JStr ''users'', collection = Some ''$cmd''\<rparr>)
   \<and> (\<exists>this. CommandOperation_new sample_deps {} None None (Some sample_parent) None = Inr this
           \<and> ns this = \<lparr>db = JStr ''shop'', collection = Some ''$cmd''\<rparr>)
   \<and> (\<exists>this. CommandOperation_new sample_deps {} None None None (Some []) = Inr this
           \<and> ns this = \<lparr>db = JStr ''admin'', collection = Some ''$cmd''\<rparr>)"
proof -
  obtain t1 where t1: "CommandOperation_new sample_deps {} None None (Some sample_parent)
                         (Some [(''dbName'', JStr ''reports'')]) = Inr t1"
    by (simp add: CommandOperation_new_def Let_def hasAspect_def opt_get_def)
  obtain t2 where t2: "CommandOperation_new sample_deps {} None None (Some sample_parent)
                         (Some [(''authdb'', JStr ''users'')]) = Inr t2"
    by (simp add: CommandOperation_new_def Let_def hasAspect_def opt_get_def)
  obtain t3 where t3: "CommandOperation_new sample_deps {} None None (Some sample_parent) None
                         = Inr t3"
    by (simp add: CommandOperation_new_def Let_def hasAspect_def opt_get_def)
  obtain t4 where t4: "CommandOperation_new sample_deps {} None None None (Some []) = Inr t4"
    by (simp add: CommandOperation_new_def Let_def hasAspect_def opt_get_def)
  have n1: "ns t1 = \<lparr>db = JStr ''reports'', collection = Some ''$cmd''\<rparr>
            \<and> ns (operation (executeCommand sample_deps t1 (sample_server 6) sample_cmd)) = ns t1"
    using namespace_precedence [OF t1, of sample_deps "sample_server 6" sample_cmd]
    by (simp add: opt_get_def js_or_def)
  have n2: "ns t2 = \<lparr>db = JStr ''users'', collection = Some ''$cmd''\<rparr>"
    using namespace_precedence [OF t2, of sample_deps "sample_server 6" sample_cmd]
    by (simp add: opt_get_def js_or_def)
  have n3: "ns t3 = \<lparr>db = JStr ''shop'', collection = Some ''$cmd''\<rparr>"
    using namespace_precedence [OF t3, of sample_deps "sample_server 6" sample_cmd]
    by (simp add: opt_get_def js_or_def sample_parent_def)
  have n4: "ns t4 = \<lparr>db = JStr ''admin'', collection = Some ''$cmd''\<rparr>"
    using namespace_precedence [OF t4, of sample_deps "sample_server 6" sample_cmd]
    by (simp add: opt_get_def js_or_def)
  show ?thesis
    using t1 t2 t3 t4 n1 n2 n3 n4 by blast
qed

section \<open>Concerns\<close>

lemma steps_without_concerns:
  "collation_rejected (this\<lparr>readConcern := None, writeConcern := None\<rparr>) srv
     = collation_rejected this srv"
  "with_readConcern deps (this\<lparr>readConcern := None, writeConcern := None\<rparr>) c = c"
  "with_writeConcern (this\<lparr>readConcern := None, writeConcern := None\<rparr>) c = c"
  "with_collation (this\<lparr>readConcern := None, writeConcern := None\<rparr>) c = with_collation this c"
  "with_maxTimeMS (this\<lparr>readConcern := None, writeConcern := None\<rparr>) c = with_maxTimeMS this c"
  "with_comment (this\<lparr>readConcern := None, writeConcern := None\<rparr>) c = with_comment this c"
  "explain_step deps (this\<lparr>readConcern := None, writeConcern := None\<rparr>) srv c
     = explain_step deps this srv c"
  "debug_trace (this\<lparr>readConcern := None, writeConcern := None\<rparr>) c = debug_trace this c"
  "forwarded_options (this\<lparr>readConcern := None, writeConcern := None\<rparr>)
     = forwarded_options this"
  by (simp_all add: collation_rejected_def with_readConcern_def with_writeConcern_def
      with_collation_def with_maxTimeMS_def with_comment_def explain_step_def debug_trace_def
      forwarded_options_def exec_options_def hasAspect_def session_inTransaction_def
      split: option.split)

lemma steps_in_transaction:
  assumes "session_inTransaction this"
  shows "with_readConcern deps this c = c" and "with_writeConcern this c = c"
  using assms by (simp_all add: with_readConcern_def with_writeConcern_def split: option.split)

text \<open>
  C6.  When the operation has a session and that session is in a transaction, the call
  leaves the \<open>readConcern\<close> and \<open>writeConcern\<close> fields of the command as the caller
  passed them, whatever concerns the operation holds, whatever the wire version and the
  aspects; the caller's document and the events are those of the same operation with no
  concern configured.
\<close>

theorem transaction_suppression:
  assumes "session this = Some s" and "inTransaction s"
  shows "js_get (caller_cmd (executeCommand deps this srv c)) ''readConcern''
           = js_get c ''readConcern''
         \<and> js_get (caller_cmd (executeCommand deps this srv c)) ''writeConcern''
             = js_get c ''writeConcern''
         \<and> caller_cmd (executeCommand deps this srv c)
             = caller_cmd (executeCommand deps
                 (this\<lparr>readConcern := None, writeConcern := None\<rparr>) srv c)
         \<and> events (executeCommand deps this srv c)
             = events (executeCommand deps
                 (this\<lparr>readConcern := None, writeConcern := None\<rparr>) srv c)"
proof -
  have tx: "session_inTransaction this"
    using assms by (simp add: session_inTransaction_def)
  have d: "decorated deps this srv c
           = decorated deps (this\<lparr>readConcern := None, writeConcern := None\<rparr>) srv c"
    by (simp add: decorated_def steps_without_concerns steps_in_transaction [OF tx])
  have same: "caller_cmd (executeCommand deps this srv c)
                = caller_cmd (executeCommand deps
                    (this\<lparr>readConcern := None, writeConcern := None\<rparr>) srv c)
              \<and> events (executeCommand deps this srv c)
                = events (executeCommand deps
                    (this\<lparr>readConcern := None, writeConcern := None\<rparr>) srv c)"
    by (simp add: executeCommand_steps steps_without_concerns steps_in_transaction [OF tx]
        d [symmetric])
  have rc: "js_get (decorated deps this srv c) ''readConcern'' = js_get c ''readConcern''"
    by (simp add: decorated_def js_get_with_comment js_get_with_maxTimeMS js_get_with_collation
        steps_in_transaction [OF tx])
  have wc: "js_get (decorated deps this srv c) ''writeConcern'' = js_get c ''writeConcern''"
    by (simp add: decorated_def js_get_with_comment js_get_with_maxTimeMS js_get_with_collation
        steps_in_transaction [OF tx])
  have "js_get (caller_cmd (executeCommand deps this srv c)) ''readConcern''
          = js_get c ''readConcern''"
    by (simp add: caller_cmd_executeCommand js_get_fst_explain_step rc
        steps_in_transaction [OF tx])
  moreover have "js_get (caller_cmd (executeCommand deps this srv c)) ''writeConcern''
          = js_get c ''writeConcern''"
    by (simp add: caller_cmd_executeCommand js_get_fst_explain_step wc
        steps_in_transaction [OF tx])
  ultimately show ?thesis
    using same by blast
qed

theorem transaction_suppression_witness:
  "session (sample_op\<lparr>session := Some \<lparr>inTransaction = True\<rparr>\<rparr>) = Some \<lparr>inTransaction = True\<rparr>
   \<and> inTransaction \<lparr>inTransaction = True\<rparr>
   \<and> readConcern (sample_op\<lparr>session := Some \<lparr>inTransaction = True\<rparr>\<rparr>) \<noteq> None
   \<and> writeConcern (sample_op\<lparr>session := Some \<lparr>inTransaction = True\<rparr>\<rparr>) \<noteq> None
   \<and> hasAspect (sample_op\<lparr>session := Some \<lparr>inTransaction = True\<rparr>\<rparr>) WRITE_OPERATION
   \<and> js_get (caller_cmd (executeCommand sample_deps
          (sample_op\<lparr>session := Some \<lparr>inTransaction = True\<rparr>\<rparr>) (sample_server 6) sample_cmd))
        ''readConcern'' = JUndefined
   \<and> js_get (caller_cmd (executeCommand sample_deps
          (sample_op\<lparr>session := Some \<lparr>inTransaction = True\<rparr>\<rparr>) (sample_server 6) sample_cmd))
        ''writeConcern'' = JUndefined"
proof -
  let ?op = "sample_op\<lparr>session := Some \<lparr>inTransaction = True\<rparr>\<rparr>"
  have h1: "session ?op = Some \<lparr>inTransaction = True\<rparr>" by simp
  have h2: "inTransaction \<lparr>inTransaction = True\<rparr>" by simp
  have h3: "readConcern ?op \<noteq> None \<and> writeConcern ?op \<noteq> None \<and> hasAspect ?op WRITE_OPERATION"
    by (simp add: sample_op_def hasAspect_def)
  have u: "js_get sample_cmd ''readConcern'' = JUndefined"
    "js_get sample_cmd ''writeConcern'' = JUndefined"
    by (simp_all add: sample_cmd_def)
  have r: "js_get (caller_cmd (executeCommand sample_deps ?op (sample_server 6) sample_cmd))
             ''readConcern'' = js_get sample_cmd ''readConcern''"
    and w: "js_get (caller_cmd (executeCommand sample_deps ?op (sample_server 6) sample_cmd))
             ''writeConcern'' = js_get sample_cmd ''writeConcern''"
    using transaction_suppression [OF h1 h2, of sample_deps "sample_server 6" sample_cmd]
    by blast+
  show ?thesis
    unfolding r w u using h1 h2 h3 by blast
qed

text \<open>
  C7.  After the call the \<open>writeConcern\<close> field of the command is the operation's
  write concern when the wire version is at least 5, a write concern is set, the
  operation has the \<open>WRITE_OPERATION\<close> aspect and no transaction is active; in every
  other case the field is as the caller passed it.  Below wire version 5, with a write
  concern set and no truthy collation, the callback gets no error and the transport is
  called once, with the write concern left out: the caller's document and the events
  are those of the operation without a write concern.
\<close>

theorem writeConcern_attachment:
  "js_get (caller_cmd (executeCommand deps this srv c)) ''writeConcern'' =
     (case writeConcern this of
        None \<Rightarrow> js_get c ''writeConcern''
      | Some wc \<Rightarrow>
          if 5 \<le> maxWireVersion srv \<and> hasAspect this WRITE_OPERATION
             \<and> \<not> session_inTransaction this
          then JObj wc else js_get c ''writeConcern'')
   \<and> (maxWireVersion srv < 5 \<and> writeConcern this \<noteq> None
        \<and> \<not> js_truthy (js_get (exec_options this) ''collation'') \<longrightarrow>
      callback_errors (events (executeCommand deps this srv c)) = []
      \<and> length (transport_calls (events (executeCommand deps this srv c))) = 1
      \<and> caller_cmd (executeCommand deps this srv c)
          = caller_cmd (executeCommand deps (this\<lparr>writeConcern := None\<rparr>) srv c)
      \<and> events (executeCommand deps this srv c)
          = events (executeCommand deps (this\<lparr>writeConcern := None\<rparr>) srv c))"
proof (intro conjI impI)
  have rc: "js_get (with_readConcern deps this c) ''writeConcern'' = js_get c ''writeConcern''"
    by (simp add: js_get_with_readConcern split: option.split)
  have d: "js_get (decorated deps this srv c) ''writeConcern'' =
             (if 5 \<le> maxWireVersion srv
              then js_get (with_writeConcern this (with_readConcern deps this c)) ''writeConcern''
              else js_get c ''writeConcern'')"
    by (simp add: decorated_def js_get_with_comment js_get_with_maxTimeMS js_get_with_collation
        rc SUPPORTS_WRITE_CONCERN_AND_COLLATION_def)
  have rej: "collation_rejected this srv \<Longrightarrow> \<not> 5 \<le> maxWireVersion srv"
    by (simp add: collation_rejected_def SUPPORTS_WRITE_CONCERN_AND_COLLATION_def)
  show "js_get (caller_cmd (executeCommand deps this srv c)) ''writeConcern'' =
          (case writeConcern this of
             None \<Rightarrow> js_get c ''writeConcern''
           | Some wc \<Rightarrow>
               if 5 \<le> maxWireVersion srv \<and> hasAspect this WRITE_OPERATION
                  \<and> \<not> session_inTransaction this
               then JObj wc else js_get c ''writeConcern'')"
    using rej
    by (auto simp: caller_cmd_executeCommand js_get_fst_explain_step d rc
        js_get_with_writeConcern split: option.split)
next
  assume h: "maxWireVersion srv < 5 \<and> writeConcern this \<noteq> None
             \<and> \<not> js_truthy (js_get (exec_options this) ''collation'')"
  let ?t = "this\<lparr>writeConcern := None\<rparr>"
  have nr: "\<not> collation_rejected this srv" "\<not> collation_rejected ?t srv"
    using h by (simp_all add: collation_rejected_def exec_options_def)
  have d: "decorated deps ?t srv c = decorated deps this srv c"
    using h
    by (simp add: decorated_def with_readConcern_def with_collation_def with_maxTimeMS_def
        with_comment_def exec_options_def session_inTransaction_def
        SUPPORTS_WRITE_CONCERN_AND_COLLATION_def split: option.split)
  have e: "explain_step deps ?t srv x = explain_step deps this srv x" for x
    by (simp add: explain_step_def hasAspect_def)
  have rest: "debug_trace ?t x = debug_trace this x" "forwarded_options ?t = forwarded_options this"
    for x
    by (simp_all add: debug_trace_def forwarded_options_def split: option.split)
  show "callback_errors (events (executeCommand deps this srv c)) = []"
    using nr by (simp add: callback_errors_executeCommand)
  show "length (transport_calls (events (executeCommand deps this srv c))) = 1"
    using nr by (simp add: transport_calls_executeCommand)
  show "caller_cmd (executeCommand deps this srv c)
          = caller_cmd (executeCommand deps ?t srv c)"
    using nr by (simp add: caller_cmd_executeCommand d e)
  show "events (executeCommand deps this srv c) = events (executeCommand deps ?t srv c)"
    using nr by (simp add: executeCommand_steps d e rest)
qed

theorem writeConcern_attachment_witness:
  "maxWireVersion (sample_server 4) < 5
   \<and> writeConcern (sample_op\<lparr>options := [(''maxTimeMS'', JNum 250)]\<rparr>) \<noteq> None
   \<and> \<not> js_truthy (js_get (exec_options (sample_op\<lparr>options := [(''maxTimeMS'', JNum 250)]\<rparr>))
          ''collation'')
   \<and> callback_errors (events (executeCommand sample_deps
         (sample_op\<lparr>options := [(''maxTimeMS'', JNum 250)]\<rparr>) (sample_server 4) sample_cmd)) = []
   \<and> length (transport_calls (events (executeCommand sample_deps
         (sample_op\<lparr>options := [(''maxTimeMS'', JNum 250)]\<rparr>) (sample_server 4) sample_cmd))) = 1
   \<and> js_get (caller_cmd (executeCommand sample_deps
         (sample_op\<lparr>options := [(''maxTimeMS'', JNum 250)]\<rparr>) (sample_server 4) sample_cmd))
        ''writeConcern'' = JUndefined
   \<and> js_get (caller_cmd (executeCommand sample_deps sample_op (sample_server 5) sample_cmd))
        ''writeConcern'' = JObj [(''w'', JNum 1)]"
proof -
  let ?op = "sample_op\<lparr>options := [(''maxTimeMS'', JNum 250)]\<rparr>"
  have h: "maxWireVersion (sample_server 4) < 5 \<and> writeConcern ?op \<noteq> None
           \<and> \<not> js_truthy (js_get (exec_options ?op) ''collation'')"
    by (simp add: sample_defs model_defs)
  have f: "writeConcern sample_op = Some [(''w'', JNum 1)]"
    "\<not> 5 \<le> maxWireVersion (sample_server 4)" "5 \<le> maxWireVersion (sample_server 5)"
    "hasAspect sample_op WRITE_OPERATION" "\<not> session_inTransaction sample_op"
    "js_get sample_cmd ''writeConcern'' = JUndefined"
    by (simp_all add: sample_defs model_defs)
  have w4: "js_get (caller_cmd (executeCommand sample_deps ?op (sample_server 4) sample_cmd))
              ''writeConcern'' = JUndefined"
    using writeConcern_attachment [of sample_deps ?op "sample_server 4" sample_cmd, THEN conjunct1]
    by (simp add: f)
  have w5: "js_get (caller_cmd (executeCommand sample_deps sample_op (sample_server 5) sample_cmd))
              ''writeConcern'' = JObj [(''w'', JNum 1)]"
    using writeConcern_attachment [of sample_deps sample_op "sample_server 5" sample_cmd,
        THEN conjunct1]
    by (simp add: f)
  show ?thesis
    using h w4 w5 writeConcern_attachment [of sample_deps ?op "sample_server 4" sample_cmd]
    by blast
qed

section \<open>The execution options\<close>

text \<open>
  C9.  For an operation the constructor returned, on a call that reaches the transport,
  the execution options handed over are the spread of \<open>fullResult\<close>, set to the
  boolean the constructor recorded (the \<open>fullResponse\<close> option when it is a boolean,
  false otherwise), followed by the caller's options.  Its \<open>fullResult\<close> is the
  caller's value whenever the caller's options have that key, and the recorded boolean
  only when they do not.
\<close>

theorem forwarded_fullResult:
  assumes "CommandOperation_new deps asp sess bson parent opts = Inr this"
    and "\<not> (js_truthy (js_get (exec_options this) ''collation'') \<and> maxWireVersion srv < 5)"
  shows "let fr = (case opt_get opts ''fullResponse'' of JBool b \<Rightarrow> b | _ \<Rightarrow> False);
             x = js_spread [(''fullResult'', JBool fr)] (OperationBase_options opts)
         in sent_options (events (executeCommand deps this srv c)) = [x]
            \<and> js_get x ''fullResult'' =
                (if js_has (OperationBase_options opts) ''fullResult''
                 then opt_get opts ''fullResult'' else JBool fr)"
proof -
  let ?fr = "case opt_get opts ''fullResponse'' of JBool b \<Rightarrow> b | _ \<Rightarrow> False"
  have fields: "options this = OperationBase_options opts \<and> fullResponse this = Some ?fr"
    using assms(1)
    by (auto simp: CommandOperation_new_def Let_def opt_get_def
        split: if_splits sum.splits option.splits)
  have nr: "\<not> collation_rejected this srv"
    using assms(2) by (simp add: collation_rejected_def SUPPORTS_WRITE_CONCERN_AND_COLLATION_def)
  have sent: "sent_options (events (executeCommand deps this srv c))
              = [js_spread [(''fullResult'', JBool ?fr)] (OperationBase_options opts)]"
    using nr fields
    by (simp add: sent_options_def transport_calls_executeCommand forwarded_options_def)
  have get: "js_get (js_spread [(''fullResult'', JBool ?fr)] (OperationBase_options opts))
               ''fullResult''
             = (if js_has (OperationBase_options opts) ''fullResult''
                then opt_get opts ''fullResult'' else JBool ?fr)"
    by (simp add: js_get_spread opt_get_def OperationBase_options_def js_has_def
        split: option.split)
  show ?thesis
    unfolding Let_def using sent get by blast
qed

theorem forwarded_fullResult_witness:
  "\<exists>this. CommandOperation_new sample_deps {WRITE_OPERATION} None None (Some sample_parent)
             (Some sample_options) = Inr this
     \<and> \<not> (js_truthy (js_get (exec_options this) ''collation'')
            \<and> maxWireVersion (sample_server 6) < 5)
     \<and> fullResponse this = Some True
     \<and> sent_options (events (executeCommand sample_deps this (sample_server 6) sample_cmd))
         = [js_spread [(''fullResult'', JBool True)] sample_options]
     \<and> js_get (js_spread [(''fullResult'', JBool True)] sample_options) ''fullResult''
         = JBool False"
proof -
  obtain t where t: "CommandOperation_new sample_deps {WRITE_OPERATION} None None
                       (Some sample_parent) (Some sample_options) = Inr t"
    and fr: "fullResponse t = Some True"
    by (simp add: CommandOperation_new_def Let_def hasAspect_def opt_get_def sample_options_def)
  have n: "\<not> (js_truthy (js_get (exec_options t) ''collation'')
              \<and> maxWireVersion (sample_server 6) < 5)"
    by (simp add: sample_server_def maxWireVersion_def)
  have v: "(case opt_get (Some sample_options) ''fullResponse'' of JBool b \<Rightarrow> b | _ \<Rightarrow> False)
           = True"
    by (simp add: opt_get_def sample_options_def)
  have g: "js_get (js_spread [(''fullResult'', JBool True)] sample_options) ''fullResult''
           = JBool False"
    by (simp add: js_get_spread js_has_def sample_options_def)
  have "sent_options (events (executeCommand sample_deps t (sample_server 6) sample_cmd))
          = [js_spread [(''fullResult'', JBool True)] sample_options]"
    using forwarded_fullResult [OF t n, of sample_cmd]
    by (simp add: Let_def v OperationBase_options_def)
  with t n fr g show ?thesis
    by blast
qed

section \<open>Mutation before the collation error\<close>

text \<open>
  C10.  When the operation holds a read concern, the command supports read concern, no
  transaction is active, the options hold a truthy collation and the wire version is
  below 5, the call has put the \<open>readConcern\<close> field into the caller's document
  although all it does to the outside is report the collation error: nothing is sent.
\<close>

theorem readConcern_set_before_collation_error:
  assumes "readConcern this = Some rc"
    and "commandSupportsReadConcern deps c"
    and "\<not> session_inTransaction this"
    and "js_truthy (js_get (exec_options this) ''collation'')"
    and "maxWireVersion srv < 5"
  shows "caller_cmd (executeCommand deps this srv c) = js_set c ''readConcern'' (JObj rc)
         \<and> js_get (caller_cmd (executeCommand deps this srv c)) ''readConcern'' = JObj rc
         \<and> callback_errors (events (executeCommand deps this srv c)) = [collation_error srv]
         \<and> transport_calls (events (executeCommand deps this srv c)) = []"
proof -
  have r: "collation_rejected this srv"
    using assms(4,5)
    by (simp add: collation_rejected_def SUPPORTS_WRITE_CONCERN_AND_COLLATION_def)
  have m: "with_readConcern deps this c = js_set c ''readConcern'' (JObj rc)"
    using assms(1,2,3) by (simp add: with_readConcern_def)
  show ?thesis
    using r
    by (simp add: caller_cmd_executeCommand callback_errors_executeCommand
        transport_calls_executeCommand m)
qed

theorem readConcern_set_before_collation_error_witness:
  "readConcern sample_op = Some [(''level'', JStr ''majority'')]
   \<and> commandSupportsReadConcern sample_deps sample_cmd
   \<and> \<not> session_inTransaction sample_op
   \<and> js_truthy (js_get (exec_options sample_op) ''collation'')
   \<and> maxWireVersion (sample_server 4) < 5
   \<and> js_get sample_cmd ''readConcern'' = JUndefined
   \<and> caller_cmd (executeCommand sample_deps sample_op (sample_server 4) sample_cmd)
       = [(''aggregate'', JStr ''orders''), (''pipeline'', JObj []),
          (''readConcern'', JObj [(''level'', JStr ''majority'')])]
   \<and> transport_calls
        (events (executeCommand sample_deps sample_op (sample_server 4) sample_cmd)) = []"
proof -
  have h1: "readConcern sample_op = Some [(''level'', JStr ''majority'')]"
    by (simp add: sample_op_def)
  have h2: "commandSupportsReadConcern sample_deps sample_cmd"
    by (simp add: sample_deps_def sample_cmd_def)
  have h3: "\<not> session_inTransaction sample_op"
    by (simp add: sample_op_def session_inTransaction_def)
  have h4: "js_truthy (js_get (exec_options sample_op) ''collation'')"
    by (simp add: sample_defs model_defs)
  have h5: "maxWireVersion (sample_server 4) < 5"
    by (simp add: sample_defs model_defs)
  have u: "js_get sample_cmd ''readConcern'' = JUndefined"
    by (simp add: sample_cmd_def)
  have s: "js_set sample_cmd ''readConcern'' (JObj [(''level'', JStr ''majority'')])
           = [(''aggregate'', JStr ''orders''), (''pipeline'', JObj []),
              (''readConcern'', JObj [(''level'', JStr ''majority'')])]"
    by (simp add: sample_cmd_def)
  show ?thesis
    using h1 h2 h3 h4 h5 u s
      readConcern_set_before_collation_error [OF h1 h2 h3 h4 h5]
    by simp
qed

section \<open>Repeating the decoration\<close>

lemma with_server:
  "with_readConcern deps (this\<lparr>server := s\<rparr>) c = with_readConcern deps this c"
  "with_writeConcern (this\<lparr>server := s\<rparr>) c = with_writeConcern this c"
  "with_collation (this\<lparr>server := s\<rparr>) c = with_collation this c"
  "with_maxTimeMS (this\<lparr>server := s\<rparr>) c = with_maxTimeMS this c"
  "with_comment (this\<lparr>server := s\<rparr>) c = with_comment this c"
  by (simp_all add: with_readConcern_def with_writeConcern_def with_collation_def
      with_maxTimeMS_def with_comment_def cong: option.case_cong)

lemma steps_server:
  "collation_rejected (this\<lparr>server := s\<rparr>) srv = collation_rejected this srv"
  "decorated deps (this\<lparr>server := s\<rparr>) srv c = decorated deps this srv c"
  "explain_step deps (this\<lparr>server := s\<rparr>) srv c = explain_step deps this srv c"
  "debug_trace (this\<lparr>server := s\<rparr>) c = debug_trace this c"
  "forwarded_options (this\<lparr>server := s\<rparr>) = forwarded_options this"
  by (simp_all add: collation_rejected_def decorated_def with_server explain_step_def
      debug_trace_def forwarded_options_def cong: option.case_cong if_cong)

lemma executeCommand_server:
  "executeCommand deps (this\<lparr>server := s\<rparr>) srv c = executeCommand deps this srv c"
  by (simp add: executeCommand_steps steps_server with_server)

text \<open>Setting a field to the value it already holds changes nothing.\<close>

lemma js_has_Cons: "js_has ((k', v') # d) k = (k' = k \<or> js_has d k)"
  by (auto simp: js_has_def)

lemma js_has_set [simp]: "js_has (js_set d k v) k' = (k' = k \<or> js_has d k')"
proof (induction d)
  case Nil
  show ?case by (auto simp: js_has_def)
next
  case (Cons p d)
  obtain k0 v0 where p: "p = (k0, v0)" by (cases p)
  show ?case
    using Cons.IH by (cases "k0 = k") (auto simp: p js_has_Cons)
qed

lemma js_set_get: "js_has d k \<Longrightarrow> js_set d k (js_get d k) = d"
proof (induction d)
  case Nil
  then show ?case by (simp add: js_has_def)
next
  case (Cons p d)
  obtain k' v' where p: "p = (k', v')" by (cases p)
  show ?case
  proof (cases "k' = k")
    case True
    then show ?thesis by (simp add: p)
  next
    case False
    with Cons.prems have "js_has d k" by (simp add: p js_has_Cons)
    with Cons.IH False show ?thesis by (simp add: p)
  qed
qed

lemma js_set_holds: "js_holds d k v \<Longrightarrow> js_set d k v = d"
  by (auto simp: js_holds_def js_set_get)

lemma js_holds_set [simp]:
  "js_holds (js_set d k' v') k v = (if k = k' then v = v' else js_holds d k v)"
  by (auto simp: js_holds_def)

text \<open>Each statement sets its own field, keeps the others, and is absorbed once its field is set.\<close>

lemma holds_with_readConcern:
  "js_holds (with_readConcern deps this d) k v =
     (case readConcern this of
        None \<Rightarrow> js_holds d k v
      | Some rc \<Rightarrow>
          if commandSupportsReadConcern deps d \<and> \<not> session_inTransaction this
          then (if k = ''readConcern'' then v = JObj rc else js_holds d k v)
          else js_holds d k v)"
  by (auto simp: with_readConcern_def split: option.split)

lemma holds_with_writeConcern:
  "js_holds (with_writeConcern this d) k v =
     (case writeConcern this of
        None \<Rightarrow> js_holds d k v
      | Some wc \<Rightarrow>
          if hasAspect this WRITE_OPERATION \<and> \<not> session_inTransaction this
          then (if k = ''writeConcern'' then v = JObj wc else js_holds d k v)
          else js_holds d k v)"
  by (auto simp: with_writeConcern_def split: option.split)

lemma holds_with_collation:
  "js_holds (with_collation this d) k v =
     (if js_truthy (js_get (exec_options this) ''collation'')
         \<and> js_typeof (js_get (exec_options this) ''collation'') = T_object
      then (if k = ''collation'' then v = js_get (exec_options this) ''collation''
            else js_holds d k v)
      else js_holds d k v)"
  by (simp add: with_collation_def)

lemma holds_with_maxTimeMS:
  "js_holds (with_maxTimeMS this d) k v =
     (if js_typeof (js_get (exec_options this) ''maxTimeMS'') = T_number
      then (if k = ''maxTimeMS'' then v = js_get (exec_options this) ''maxTimeMS''
            else js_holds d k v)
      else js_holds d k v)"
  by (simp add: with_maxTimeMS_def)

lemma holds_with_comment:
  "js_holds (with_comment this d) k v =
     (if js_typeof (js_get (exec_options this) ''comment'') = T_string
      then (if k = ''comment'' then v = js_get (exec_options this) ''comment''
            else js_holds d k v)
      else js_holds d k v)"
  by (simp add: with_comment_def)

lemmas holds_with =
  holds_with_readConcern holds_with_writeConcern holds_with_collation holds_with_maxTimeMS
  holds_with_comment

lemma absorb_readConcern:
  assumes "\<And>rc. readConcern this = Some rc \<Longrightarrow> commandSupportsReadConcern deps d \<Longrightarrow>
                \<not> session_inTransaction this \<Longrightarrow> js_holds d ''readConcern'' (JObj rc)"
  shows "with_readConcern deps this d = d"
  using assms by (auto simp: with_readConcern_def js_set_holds split: option.split)

lemma absorb_writeConcern:
  assumes "\<And>wc. writeConcern this = Some wc \<Longrightarrow> hasAspect this WRITE_OPERATION \<Longrightarrow>
                \<not> session_inTransaction this \<Longrightarrow> js_holds d ''writeConcern'' (JObj wc)"
  shows "with_writeConcern this d = d"
  using assms by (auto simp: with_writeConcern_def js_set_holds split: option.split)

lemma absorb_collation:
  assumes "js_truthy (js_get (exec_options this) ''collation'') \<Longrightarrow>
           js_typeof (js_get (exec_options this) ''collation'') = T_object \<Longrightarrow>
           js_holds d ''collation'' (js_get (exec_options this) ''collation'')"
  shows "with_collation this d = d"
  using assms by (auto simp: with_collation_def js_set_holds)

lemma absorb_maxTimeMS:
  assumes "js_typeof (js_get (exec_options this) ''maxTimeMS'') = T_number \<Longrightarrow>
           js_holds d ''maxTimeMS'' (js_get (exec_options this) ''maxTimeMS'')"
  shows "with_maxTimeMS this d = d"
  using assms by (auto simp: with_maxTimeMS_def js_set_holds)

lemma absorb_comment:
  assumes "js_typeof (js_get (exec_options this) ''comment'') = T_string \<Longrightarrow>
           js_holds d ''comment'' (js_get (exec_options this) ''comment'')"
  shows "with_comment this d = d"
  using assms by (auto simp: with_comment_def js_set_holds)

lemma with_readConcern_twice:
  "with_readConcern deps this (with_readConcern deps this c) = with_readConcern deps this c"
proof (rule absorb_readConcern)
  fix rc
  assume rc: "readConcern this = Some rc"
    and sup: "commandSupportsReadConcern deps (with_readConcern deps this c)"
    and tx: "\<not> session_inTransaction this"
  show "js_holds (with_readConcern deps this c) ''readConcern'' (JObj rc)"
  proof (cases "commandSupportsReadConcern deps c")
    case True
    with rc tx show ?thesis by (simp add: holds_with_readConcern)
  next
    case False
    with rc have "with_readConcern deps this c = c" by (simp add: with_readConcern_def)
    with sup False show ?thesis by simp
  qed
qed

lemma supports_decorated:
  assumes "readConcern_support_by_verb deps"
  shows "commandSupportsReadConcern deps (decorated deps this srv c)
           = commandSupportsReadConcern deps c"
    and "commandSupportsReadConcern deps (js_set (decorated deps this srv c) ''explain'' v)
           = commandSupportsReadConcern deps c"
proof -
  have r: "commandSupportsReadConcern deps (js_set d k w) = commandSupportsReadConcern deps d"
    if "k \<in> decoration_keys" for d k w
    using assms that by (simp add: readConcern_support_by_verb_def)
  have k: "''readConcern'' \<in> decoration_keys" "''writeConcern'' \<in> decoration_keys"
    "''collation'' \<in> decoration_keys" "''maxTimeMS'' \<in> decoration_keys"
    "''comment'' \<in> decoration_keys" "''explain'' \<in> decoration_keys"
    by (simp_all add: decoration_keys_def)
  show d: "commandSupportsReadConcern deps (decorated deps this srv c)
           = commandSupportsReadConcern deps c"
    by (simp add: decorated_def with_readConcern_def with_writeConcern_def with_collation_def
        with_maxTimeMS_def with_comment_def r k split: option.split)
  show "commandSupportsReadConcern deps (js_set (decorated deps this srv c) ''explain'' v)
          = commandSupportsReadConcern deps c"
    by (simp add: r k d)
qed

lemma decorated_absorbs:
  assumes sup: "commandSupportsReadConcern deps e = commandSupportsReadConcern deps c"
    and e: "e = decorated deps this srv c
            \<or> e = js_set (decorated deps this srv c) ''explain'' (JBool True)"
  shows "decorated deps this srv e = e"
proof -
  have rc: "with_readConcern deps this e = e"
  proof (rule absorb_readConcern)
    fix rc
    assume "readConcern this = Some rc" and "commandSupportsReadConcern deps e"
      and "\<not> session_inTransaction this"
    then show "js_holds e ''readConcern'' (JObj rc)"
      using e sup by (auto simp: decorated_def holds_with split: option.split)
  qed
  have wc: "with_writeConcern this e = e" if "5 \<le> maxWireVersion srv"
  proof (rule absorb_writeConcern)
    fix wc
    assume "writeConcern this = Some wc" and "hasAspect this WRITE_OPERATION"
      and "\<not> session_inTransaction this"
    then show "js_holds e ''writeConcern'' (JObj wc)"
      using e that
      by (auto simp: decorated_def holds_with SUPPORTS_WRITE_CONCERN_AND_COLLATION_def
          split: option.split)
  qed
  have co: "with_collation this e = e" if "5 \<le> maxWireVersion srv"
  proof (rule absorb_collation)
    assume "js_truthy (js_get (exec_options this) ''collation'')"
      and "js_typeof (js_get (exec_options this) ''collation'') = T_object"
    then show "js_holds e ''collation'' (js_get (exec_options this) ''collation'')"
      using e that
      by (auto simp: decorated_def holds_with SUPPORTS_WRITE_CONCERN_AND_COLLATION_def
          split: option.split)
  qed
  have mt: "with_maxTimeMS this e = e"
  proof (rule absorb_maxTimeMS)
    assume "js_typeof (js_get (exec_options this) ''maxTimeMS'') = T_number"
    then show "js_holds e ''maxTimeMS'' (js_get (exec_options this) ''maxTimeMS'')"
      using e by (auto simp: decorated_def holds_with split: option.split)
  qed
  have cm: "with_comment this e = e"
  proof (rule absorb_comment)
    assume "js_typeof (js_get (exec_options this) ''comment'') = T_string"
    then show "js_holds e ''comment'' (js_get (exec_options this) ''comment'')"
      using e by (auto simp: decorated_def holds_with split: option.split)
  qed
  show ?thesis
    by (simp add: decorated_def rc wc co mt cm SUPPORTS_WRITE_CONCERN_AND_COLLATION_def)
qed

lemma explain_step_absorbs:
  assumes "e = fst (explain_step deps this srv d)"
    and "js_get e ''aggregate'' = js_get d ''aggregate''"
  shows "fst (explain_step deps this srv e) = e"
    and "snd (explain_step deps this srv e) = snd (explain_step deps this srv d)"
  using assms
  by (auto simp: explain_step_def js_set_holds js_holds_def split: option.split if_splits)

lemma fst_explain_step_cases:
  "fst (explain_step deps this srv d) = d
   \<or> fst (explain_step deps this srv d) = js_set d ''explain'' (JBool True)"
  by (simp add: explain_step_def split: option.split)

text \<open>The value of each decorated field after a call.\<close>

lemma field_readConcern:
  "js_get (caller_cmd (executeCommand deps this srv c)) ''readConcern'' =
     (case readConcern this of
        None \<Rightarrow> js_get c ''readConcern''
      | Some rc \<Rightarrow>
          if commandSupportsReadConcern deps c \<and> \<not> session_inTransaction this
          then JObj rc else js_get c ''readConcern'')"
  by (auto simp: caller_cmd_executeCommand js_get_fst_explain_step decorated_def
      js_get_with_comment js_get_with_maxTimeMS js_get_with_collation js_get_with_writeConcern
      js_get_with_readConcern split: option.split)

lemma field_writeConcern:
  "js_get (caller_cmd (executeCommand deps this srv c)) ''writeConcern'' =
     (case writeConcern this of
        None \<Rightarrow> js_get c ''writeConcern''
      | Some wc \<Rightarrow>
          if 5 \<le> maxWireVersion srv \<and> hasAspect this WRITE_OPERATION
             \<and> \<not> session_inTransaction this
          then JObj wc else js_get c ''writeConcern'')"
  by (auto simp: caller_cmd_executeCommand js_get_fst_explain_step decorated_def
      js_get_with_comment js_get_with_maxTimeMS js_get_with_collation js_get_with_writeConcern
      js_get_with_readConcern collation_rejected_def SUPPORTS_WRITE_CONCERN_AND_COLLATION_def
      split: option.split)

lemma field_collation:
  "js_get (caller_cmd (executeCommand deps this srv c)) ''collation'' =
     (if 5 \<le> maxWireVersion srv \<and> js_truthy (js_get (exec_options this) ''collation'')
         \<and> js_typeof (js_get (exec_options this) ''collation'') = T_object
      then js_get (exec_options this) ''collation'' else js_get c ''collation'')"
  by (auto simp: caller_cmd_executeCommand js_get_fst_explain_step decorated_def
      js_get_with_comment js_get_with_maxTimeMS with_collation_def js_get_with_writeConcern
      js_get_with_readConcern collation_rejected_def SUPPORTS_WRITE_CONCERN_AND_COLLATION_def
      split: option.split)

lemma field_maxTimeMS:
  "js_get (caller_cmd (executeCommand deps this srv c)) ''maxTimeMS'' =
     (if \<not> (js_truthy (js_get (exec_options this) ''collation'') \<and> maxWireVersion srv < 5)
         \<and> js_typeof (js_get (exec_options this) ''maxTimeMS'') = T_number
      then js_get (exec_options this) ''maxTimeMS'' else js_get c ''maxTimeMS'')"
  by (auto simp: caller_cmd_executeCommand js_get_fst_explain_step decorated_def
      js_get_with_comment with_maxTimeMS_def js_get_with_collation js_get_with_writeConcern
      js_get_with_readConcern collation_rejected_def SUPPORTS_WRITE_CONCERN_AND_COLLATION_def
      split: option.split)

lemma field_comment:
  "js_get (caller_cmd (executeCommand deps this srv c)) ''comment'' =
     (if \<not> (js_truthy (js_get (exec_options this) ''collation'') \<and> maxWireVersion srv < 5)
         \<and> js_typeof (js_get (exec_options this) ''comment'') = T_string
      then js_get (exec_options this) ''comment'' else js_get c ''comment'')"
  by (auto simp: caller_cmd_executeCommand js_get_fst_explain_step decorated_def
      with_comment_def js_get_with_maxTimeMS js_get_with_collation js_get_with_writeConcern
      js_get_with_readConcern collation_rejected_def SUPPORTS_WRITE_CONCERN_AND_COLLATION_def
      split: option.split)

lemma field_explain:
  "js_get (caller_cmd (executeCommand deps this srv c)) ''explain'' =
     (if \<not> (js_truthy (js_get (exec_options this) ''collation'') \<and> maxWireVersion srv < 5)
         \<and> hasAspect this EXPLAINABLE \<and> explain this \<noteq> None
         \<and> maxWireVersion srv < 6 \<and> js_truthy (js_get c ''aggregate'')
      then JBool True else js_get c ''explain'')"
proof -
  have a: "js_get (decorated deps this srv c) ''aggregate'' = js_get c ''aggregate''"
    by (rule js_get_decorated_other) simp_all
  have x: "js_get (decorated deps this srv c) ''explain'' = js_get c ''explain''"
    by (rule js_get_decorated_other) simp_all
  show ?thesis
    by (auto simp: caller_cmd_executeCommand explain_step_def a x js_get_with_readConcern
        collation_rejected_def SUPPORTS_WRITE_CONCERN_AND_COLLATION_def split: option.split)
qed

text \<open>
  C8.  The caller's document is mutated in place, so a second call of the same operation
  against the same server finds the document as the first call left it.  Provided that
  whether a command supports read concern depends on its verb and not on the fields the
  pipeline sets, the second call leaves that document as it is and hands the transport
  the same command and the same execution options, or reports the same error.  A second
  call on a fresh copy of the original command gives the same result as the first.  The
  fields the pipeline sets are functions of the concerns, the options, the wire
  version, the transaction state, the explain directive and the command passed in, as
  spelled out field by field.
\<close>

theorem decoration_idempotent:
  assumes "readConcern_support_by_verb deps"
  shows "let r1 = executeCommand deps this srv c;
             r2 = executeCommand deps (operation r1) srv (caller_cmd r1);
             opts = exec_options this;
             passed = (\<not> (js_truthy (js_get opts ''collation'') \<and> maxWireVersion srv < 5))
         in caller_cmd r2 = caller_cmd r1
            \<and> sent_commands (events r2) = sent_commands (events r1)
            \<and> sent_options (events r2) = sent_options (events r1)
            \<and> callback_errors (events r2) = callback_errors (events r1)
            \<and> executeCommand deps (operation r1) srv c = r1
            \<and> js_get (caller_cmd r1) ''readConcern'' =
                (case readConcern this of
                   None \<Rightarrow> js_get c ''readConcern''
                 | Some rc \<Rightarrow>
                     if commandSupportsReadConcern deps c \<and> \<not> session_inTransaction this
                     then JObj rc else js_get c ''readConcern'')
            \<and> js_get (caller_cmd r1) ''writeConcern'' =
                (case writeConcern this of
                   None \<Rightarrow> js_get c ''writeConcern''
                 | Some wc \<Rightarrow>
                     if 5 \<le> maxWireVersion srv \<and> hasAspect this WRITE_OPERATION
                        \<and> \<not> session_inTransaction this
                     then JObj wc else js_get c ''writeConcern'')
            \<and> js_get (caller_cmd r1) ''collation'' =
                (if 5 \<le> maxWireVersion srv \<and> js_truthy (js_get opts ''collation'')
                    \<and> js_typeof (js_get opts ''collation'') = T_object
                 then js_get opts ''collation'' else js_get c ''collation'')
            \<and> js_get (caller_cmd r1) ''maxTimeMS'' =
                (if passed \<and> js_typeof (js_get opts ''maxTimeMS'') = T_number
                 then js_get opts ''maxTimeMS'' else js_get c ''maxTimeMS'')
            \<and> js_get (caller_cmd r1) ''comment'' =
                (if passed \<and> js_typeof (js_get opts ''comment'') = T_string
                 then js_get opts ''comment'' else js_get c ''comment'')
            \<and> js_get (caller_cmd r1) ''explain'' =
                (if passed \<and> hasAspect this EXPLAINABLE \<and> explain this \<noteq> None
                    \<and> maxWireVersion srv < 6 \<and> js_truthy (js_get c ''aggregate'')
                 then JBool True else js_get c ''explain'')"
proof -
  let ?r1 = "executeCommand deps this srv c"
  let ?c1 = "caller_cmd ?r1"
  let ?r2 = "executeCommand deps (operation ?r1) srv ?c1"
  let ?D = "decorated deps this srv c"
  have op: "operation ?r1 = this\<lparr>server := Some srv\<rparr>"
    by (simp add: executeCommand_steps)
  have r2: "executeCommand deps (operation ?r1) srv x = executeCommand deps this srv x" for x
    by (simp add: op executeCommand_server)
  have fresh: "executeCommand deps (operation ?r1) srv c = ?r1"
    by (simp add: op executeCommand_server)
  have again: "caller_cmd ?r2 = ?c1
               \<and> sent_commands (events ?r2) = sent_commands (events ?r1)
               \<and> sent_options (events ?r2) = sent_options (events ?r1)
               \<and> callback_errors (events ?r2) = callback_errors (events ?r1)"
  proof (cases "collation_rejected this srv")
    case True
    then have c1: "?c1 = with_readConcern deps this c"
      by (simp add: caller_cmd_executeCommand)
    show ?thesis
      using True
      by (simp add: r2 c1 caller_cmd_executeCommand callback_errors_executeCommand
          transport_calls_executeCommand sent_commands_def sent_options_def
          with_readConcern_twice)
  next
    case False
    then have c1: "?c1 = fst (explain_step deps this srv ?D)"
      by (simp add: caller_cmd_executeCommand)
    have shape: "?c1 = ?D \<or> ?c1 = js_set ?D ''explain'' (JBool True)"
      unfolding c1 by (rule fst_explain_step_cases)
    have sup: "commandSupportsReadConcern deps ?c1 = commandSupportsReadConcern deps c"
      using shape supports_decorated [OF assms, of this srv c] by auto
    have dec: "decorated deps this srv ?c1 = ?c1"
      using sup shape by (rule decorated_absorbs)
    have agg: "js_get ?c1 ''aggregate'' = js_get ?D ''aggregate''"
      unfolding c1 by (simp add: js_get_fst_explain_step)
    have ex: "fst (explain_step deps this srv ?c1) = ?c1"
      "snd (explain_step deps this srv ?c1) = snd (explain_step deps this srv ?D)"
      using explain_step_absorbs [OF c1 agg] by simp_all
    show ?thesis
      using False
      by (simp add: r2 caller_cmd_executeCommand callback_errors_executeCommand
          transport_calls_executeCommand sent_commands_def sent_options_def
          dec [unfolded c1] ex [unfolded c1])
  qed
  show ?thesis
    unfolding Let_def
    using again fresh field_readConcern [of deps this srv c]
      field_writeConcern [of deps this srv c] field_collation [of deps this srv c]
      field_maxTimeMS [of deps this srv c] field_comment [of deps this srv c]
      field_explain [of deps this srv c]
    by blast
qed

theorem decoration_idempotent_witness:
  "readConcern_support_by_verb sample_deps
   \<and> caller_cmd (executeCommand sample_deps sample_op (sample_server 5) sample_cmd) =
       [(''aggregate'', JStr ''orders''), (''pipeline'', JObj []),
        (''readConcern'', JObj [(''level'', JStr ''majority'')]),
        (''writeConcern'', JObj [(''w'', JNum 1)]),
        (''collation'', JObj [(''locale'', JStr ''en'')]),
        (''maxTimeMS'', JNum 250), (''comment'', JStr ''nightly''),
        (''explain'', JBool True)]
   \<and> caller_cmd (executeCommand sample_deps
         (operation (executeCommand sample_deps sample_op (sample_server 5) sample_cmd))
         (sample_server 5)
         [(''aggregate'', JStr ''orders''), (''pipeline'', JObj []),
          (''readConcern'', JObj [(''level'', JStr ''majority'')]),
          (''writeConcern'', JObj [(''w'', JNum 1)]),
          (''collation'', JObj [(''locale'', JStr ''en'')]),
          (''maxTimeMS'', JNum 250), (''comment'', JStr ''nightly''),
          (''explain'', JBool True)]) =
       [(''aggregate'', JStr ''orders''), (''pipeline'', JObj []),
        (''readConcern'', JObj [(''level'', JStr ''majority'')]),
        (''writeConcern'', JObj [(''w'', JNum 1)]),
        (''collation'', JObj [(''locale'', JStr ''en'')]),
        (''maxTimeMS'', JNum 250), (''comment'', JStr ''nightly''),
        (''explain'', JBool True)]
   \<and> sent_commands (events (executeCommand sample_deps
         (operation (executeCommand sample_deps sample_op (sample_server 5) sample_cmd))
         (sample_server 5)
         [(''aggregate'', JStr ''orders''), (''pipeline'', JObj []),
          (''readConcern'', JObj [(''level'', JStr ''majority'')]),
          (''writeConcern'', JObj [(''w'', JNum 1)]),
          (''collation'', JObj [(''locale'', JStr ''en'')]),
          (''maxTimeMS'', JNum 250), (''comment'', JStr ''nightly''),
          (''explain'', JBool True)])) =
       sent_commands (events (executeCommand sample_deps sample_op (sample_server 5) sample_cmd))"
proof -
  let ?r1 = "executeCommand sample_deps sample_op (sample_server 5) sample_cmd"
  let ?doc = "[(''aggregate'', JStr ''orders''), (''pipeline'', JObj []),
               (''readConcern'', JObj [(''level'', JStr ''majority'')]),
               (''writeConcern'', JObj [(''w'', JNum 1)]),
               (''collation'', JObj [(''locale'', JStr ''en'')]),
               (''maxTimeMS'', JNum 250), (''comment'', JStr ''nightly''),
               (''explain'', JBool True)]"
  have k: "readConcern_support_by_verb sample_deps"
    by (auto simp: readConcern_support_by_verb_def sample_deps_def decoration_keys_def)
  have e1: "caller_cmd ?r1 = ?doc"
    by (simp add: executeCommand_steps sample_defs model_defs)
  have a: "caller_cmd (executeCommand sample_deps (operation ?r1) (sample_server 5)
             (caller_cmd ?r1)) = caller_cmd ?r1"
    and b: "sent_commands (events (executeCommand sample_deps (operation ?r1) (sample_server 5)
             (caller_cmd ?r1))) = sent_commands (events ?r1)"
    using decoration_idempotent [OF k, of sample_op "sample_server 5" sample_cmd]
    unfolding Let_def by blast+
  show ?thesis
    using k e1 a [unfolded e1] b [unfolded e1] by blast
qed

end
